theory Spec2Isabelle
  imports Main
begin

section \<open>Python values\<close>

text \<open>
  The development embeds \<^verbatim>\<open>server/scripts/migrate-workspace-extensions.py\<close>.
  A Python \<^verbatim>\<open>str\<close> is a sequence of Unicode code points, so it is a list of
  naturals here; file contents are bytes, which are Isabelle's 8-bit characters.
  A path is the tuple \<^verbatim>\<open>Path.parts\<close>: for \<^verbatim>\<open>/w/u/x.json\<close> the parts
  \<^verbatim>\<open>('/', 'w', 'u', 'x.json')\<close>.
\<close>

type_synonym pystr = "nat list"
type_synonym bytes = "char list"
type_synonym path = "pystr list"

definition lit :: "string \<Rightarrow> pystr" where
  "lit s = map of_char s"

text \<open>\<^verbatim>\<open>str.isspace\<close> on one code point, and \<^verbatim>\<open>str.strip()\<close>.\<close>

definition isspace :: "nat \<Rightarrow> bool" where
  "isspace c =
     ((9 \<le> c \<and> c \<le> 13) \<or> (28 \<le> c \<and> c \<le> 32) \<or> c = 133 \<or> c = 160 \<or> c = 5760 \<or>
      (8192 \<le> c \<and> c \<le> 8202) \<or> c = 8232 \<or> c = 8233 \<or> c = 8239 \<or> c = 8287 \<or>
      c = 12288)"

definition strip :: "pystr \<Rightarrow> pystr" where
  "strip s = rev (dropWhile isspace (rev (dropWhile isspace s)))"

text \<open>
  A float is kept as sign, mantissa and exponent (or an infinity, or NaN); the script
  only ever asks whether one is zero.
\<close>

datatype pyfloat = Finite bool nat int | Infinity bool | NaN

fun float_nonzero :: "pyfloat \<Rightarrow> bool" where
  "float_nonzero (Finite s m e) = (m \<noteq> 0)"
| "float_nonzero (Infinity s) = True"
| "float_nonzero NaN = True"

text \<open>
  What \<^verbatim>\<open>json.loads\<close> returns. A \<^verbatim>\<open>dict\<close> keeps insertion order, so it is an
  association list.
\<close>

datatype json =
    JNull
  | JBool bool
  | JInt int
  | JFloat pyfloat
  | JStr pystr
  | JList "json list"
  | JDict "(pystr \<times> json) list"

text \<open>\<^verbatim>\<open>d.get(k)\<close>: the value, or \<^verbatim>\<open>None\<close> for a missing key.\<close>

definition dict_get :: "(pystr \<times> json) list \<Rightarrow> pystr \<Rightarrow> json" where
  "dict_get d k = (case map_of d k of None \<Rightarrow> JNull | Some v \<Rightarrow> v)"

text \<open>\<^verbatim>\<open>d[k] = v\<close>: an existing key keeps its position, a new key goes last.\<close>

fun dict_set :: "(pystr \<times> json) list \<Rightarrow> pystr \<Rightarrow> json \<Rightarrow> (pystr \<times> json) list" where
  "dict_set [] k v = [(k, v)]"
| "dict_set ((k', v') # d) k v =
     (if k' = k then (k', v) # d else (k', v') # dict_set d k v)"

text \<open>\<^verbatim>\<open>bool(x)\<close>, Python's truth value.\<close>

fun py_bool :: "json \<Rightarrow> bool" where
  "py_bool JNull = False"
| "py_bool (JBool b) = b"
| "py_bool (JInt i) = (i \<noteq> 0)"
| "py_bool (JFloat f) = float_nonzero f"
| "py_bool (JStr s) = (s \<noteq> [])"
| "py_bool (JList xs) = (xs \<noteq> [])"
| "py_bool (JDict d) = (d \<noteq> [])"

text \<open>Exceptions, with the text \<^verbatim>\<open>str(err)\<close> gives.\<close>

datatype exn =
    OSError pystr
  | UnicodeError pystr
  | JSONDecodeError pystr
  | ValueError pystr

fun str_exn :: "exn \<Rightarrow> pystr" where
  "str_exn (OSError m) = m"
| "str_exn (UnicodeError m) = m"
| "str_exn (JSONDecodeError m) = m"
| "str_exn (ValueError m) = m"

text \<open>
  The library functions the script calls and this development does not define:
  the UTF-8 codec, \<^verbatim>\<open>json.loads\<close>, \<^verbatim>\<open>json.dumps(v, indent=n)\<close> and
  \<^verbatim>\<open>str\<close> on a value that is not a string. Every theorem holds for all of them.
\<close>

record lib =
  utf8_decode :: "bytes \<Rightarrow> exn + pystr"
  utf8_encode :: "pystr \<Rightarrow> exn + bytes"
  json_loads :: "pystr \<Rightarrow> exn + json"
  json_dumps :: "json \<Rightarrow> nat \<Rightarrow> pystr"
  py_repr :: "json \<Rightarrow> pystr"

definition py_str :: "lib \<Rightarrow> json \<Rightarrow> pystr" where
  "py_str L v = (case v of JStr s \<Rightarrow> s | _ \<Rightarrow> py_repr L v)"

section \<open>The extension normalizer\<close>

text \<open>
  \<^verbatim>\<open>normalize_extensions\<close>, lines 98 to 115. The loop carries \<^verbatim>\<open>seen\<close> and
  \<^verbatim>\<open>out\<close>; each \<^verbatim>\<open>continue\<close> is a branch that leaves both as they are.
\<close>

fun normalize_loop :: "json list \<Rightarrow> pystr set \<Rightarrow> pystr list \<Rightarrow> pystr list" where
  "normalize_loop [] seen out = out"
| "normalize_loop (item # rest) seen out =
     (case item of
        JStr s \<Rightarrow>
          (let name = strip s in
           if name = [] then normalize_loop rest seen out
           else if name \<in> seen then normalize_loop rest seen out
           else normalize_loop rest (insert name seen) (out @ [name]))
      | _ \<Rightarrow> normalize_loop rest seen out)"

definition normalize_extensions :: "json \<Rightarrow> pystr list" where
  "normalize_extensions v =
     (case v of JList items \<Rightarrow> normalize_loop items {} [] | _ \<Rightarrow> [])"

text \<open>
  The normalizer as the specification words it: take the string items, trim each, drop
  the empty results, and keep the first occurrence of every name.
\<close>

fun keep_first :: "'a list \<Rightarrow> 'a list" where
  "keep_first [] = []"
| "keep_first (x # xs) = x # keep_first (filter (\<lambda>y. y \<noteq> x) xs)"

fun string_items :: "json list \<Rightarrow> pystr list" where
  "string_items [] = []"
| "string_items (JStr s # rest) = s # string_items rest"
| "string_items (other # rest) = string_items rest"

definition normalize_spec :: "json \<Rightarrow> pystr list" where
  "normalize_spec v =
     (case v of
        JList items \<Rightarrow> keep_first (filter (\<lambda>n. n \<noteq> []) (map strip (string_items items)))
      | _ \<Rightarrow> [])"

section \<open>Paths\<close>

text \<open>On POSIX the root is the first part, and the only part that starts with a slash.\<close>

definition is_anchor :: "pystr \<Rightarrow> bool" where
  "is_anchor part = (take 1 part = lit ''/'')"

definition path_name :: "path \<Rightarrow> pystr" where
  "path_name p = (if p = [] \<or> (length p = 1 \<and> is_anchor (hd p)) then [] else last p)"

text \<open>
  \<^verbatim>\<open>PurePath.stem\<close> of Python 3.14 (the version the script asks for), on the file
  name: the name up to its last dot, when that leaves a character other than a dot.
\<close>

definition stem :: "pystr \<Rightarrow> pystr" where
  "stem nm =
     (let s = rev (drop 1 (dropWhile (\<lambda>c. c \<noteq> 46) (rev nm)))
      in if 46 \<in> set nm \<and> (\<exists>c \<in> set s. c \<noteq> 46) then s else nm)"

definition parent :: "path \<Rightarrow> path" where
  "parent p = (if path_name p = [] then p else butlast p)"

text \<open>\<^verbatim>\<open>a / b\<close>: an absolute right operand replaces the left one.\<close>

definition joinpath :: "path \<Rightarrow> path \<Rightarrow> path" where
  "joinpath a b = (if b \<noteq> [] \<and> is_anchor (hd b) then b else a @ b)"

text \<open>
  \<^verbatim>\<open>p.relative_to(other)\<close> raises \<^verbatim>\<open>ValueError\<close> unless \<^verbatim>\<open>other\<close> is a prefix
  of the parts of \<^verbatim>\<open>p\<close>. The text of the exception abbreviates Python's, which
  quotes both paths.
\<close>

definition relative_to :: "path \<Rightarrow> path \<Rightarrow> exn + path" where
  "relative_to p other =
     (if (if other = [] then p \<noteq> [] \<and> is_anchor (hd p) else take (length other) p \<noteq> other)
      then Inl (ValueError (lit ''path is not in the subpath of other''))
      else Inr (drop (length other) p))"

text \<open>
  \<^verbatim>\<open>p.with_suffix(p.suffix + ".tmp")\<close>: the name is stem plus suffix, so the new
  name is the old one followed by \<^verbatim>\<open>.tmp\<close>; a path with no name raises
  \<^verbatim>\<open>ValueError\<close> (its text, too, abbreviated).
\<close>

definition tmp_path_of :: "path \<Rightarrow> exn + path" where
  "tmp_path_of p =
     (if path_name p = [] then Inl (ValueError (lit ''path has an empty name''))
      else Inr (butlast p @ [last p @ lit ''.tmp'']))"

text \<open>\<^verbatim>\<open>str(p)\<close>, as the error line prints the path.\<close>

fun join_sep :: "pystr list \<Rightarrow> pystr" where
  "join_sep [] = []"
| "join_sep [x] = x"
| "join_sep (x # y # ys) = x @ lit ''/'' @ join_sep (y # ys)"

definition path_str :: "path \<Rightarrow> pystr" where
  "path_str p =
     (case p of
        [] \<Rightarrow> lit ''.''
      | a # rest \<Rightarrow> if is_anchor a then a @ join_sep rest else join_sep p)"

section \<open>The file system\<close>

text \<open>
  The state the script runs in: the file table (a regular file with its bytes, or a
  directory), what was printed to standard error, and the behaviour of the operating
  system. \<^verbatim>\<open>os_fails t op\<close> says that operation \<^verbatim>\<open>op\<close>, when it is the
  \<^verbatim>\<open>t\<close>-th operation of the run, fails for a reason the file table does not show
  (permissions, a full disk, a missing parent directory); \<^verbatim>\<open>os_error t op\<close>
  is the exception it raises when it fails. Both are arbitrary, so every pattern of
  failures is covered. Distinct paths are distinct files (no links). An operation that
  fails is taken to leave the file table as it was, except \<^verbatim>\<open>write_text\<close>, which
  has truncated the file when the encoder raises; no theorem below depends on what a
  failed operation leaves behind.
\<close>

datatype node = File bytes | Dir

datatype io_op =
    Read path
  | Mkdir path
  | Copy path path
  | Write path
  | Rename path path

record world =
  nodes :: "path \<Rightarrow> node option"
  clock :: nat
  os_fails :: "nat \<Rightarrow> io_op \<Rightarrow> bool"
  os_error :: "nat \<Rightarrow> io_op \<Rightarrow> exn"
  stderr :: "pystr list"

type_synonym 'a io = "world \<Rightarrow> (exn + 'a) \<times> world"

definition tick :: "world \<Rightarrow> world" where
  "tick w = w\<lparr>clock := Suc (clock w)\<rparr>"

definition io_fail :: "io_op \<Rightarrow> 'a io" where
  "io_fail op w = (Inl (os_error w (clock w) op), tick w)"

text \<open>Sequencing: an exception ends the \<^verbatim>\<open>try\<close> block where it is raised.\<close>

definition then_do :: "'a io \<Rightarrow> ('a \<Rightarrow> 'b io) \<Rightarrow> 'b io" where
  "then_do m f w = (case m w of (Inl e, w') \<Rightarrow> (Inl e, w') | (Inr x, w') \<Rightarrow> f x w')"

definition pure_op :: "exn + 'a \<Rightarrow> 'a io" where
  "pure_op r w = (r, w)"

text \<open>\<^verbatim>\<open>Path.exists()\<close>.\<close>

definition path_exists :: "world \<Rightarrow> path \<Rightarrow> bool" where
  "path_exists w p = (nodes w p \<noteq> None)"

text \<open>\<^verbatim>\<open>Path.read_text(encoding="utf-8")\<close>: read the bytes, then decode them.\<close>

definition read_bytes :: "path \<Rightarrow> bytes io" where
  "read_bytes p w =
     (case nodes w p of
        Some (File b) \<Rightarrow>
          if os_fails w (clock w) (Read p) then io_fail (Read p) w else (Inr b, tick w)
      | _ \<Rightarrow> io_fail (Read p) w)"

definition read_text :: "lib \<Rightarrow> path \<Rightarrow> pystr io" where
  "read_text L p = then_do (read_bytes p) (\<lambda>b. pure_op (utf8_decode L b))"

text \<open>\<^verbatim>\<open>json.loads(path.read_text(encoding="utf-8"))\<close>, as lines 155 and 245 have it.\<close>

definition load_json :: "lib \<Rightarrow> path \<Rightarrow> json io" where
  "load_json L p = then_do (read_text L p) (\<lambda>text. pure_op (json_loads L text))"

text \<open>
  \<^verbatim>\<open>d.mkdir(parents=True, exist_ok=True)\<close>: afterwards \<^verbatim>\<open>d\<close> and all its
  ancestors are directories; it fails when one of them is a regular file.
\<close>

definition ancestors_self :: "path \<Rightarrow> path list" where
  "ancestors_self d = map (\<lambda>n. take n d) [1..<Suc (length d)]"

definition is_file :: "node option \<Rightarrow> bool" where
  "is_file n = (case n of Some (File b) \<Rightarrow> True | _ \<Rightarrow> False)"

definition mkdir_parents :: "path \<Rightarrow> unit io" where
  "mkdir_parents d w =
     (if os_fails w (clock w) (Mkdir d) \<or> list_ex (\<lambda>q. is_file (nodes w q)) (ancestors_self d)
      then io_fail (Mkdir d) w
      else (Inr (),
            tick (w\<lparr>nodes := (\<lambda>q. if q \<in> set (ancestors_self d) then Some Dir else nodes w q)\<rparr>)))"

text \<open>
  \<^verbatim>\<open>shutil.copy2(src, dst)\<close>: a destination that is a directory stands for the file
  of the source's name inside it; copying a file onto itself raises
  \<^verbatim>\<open>SameFileError\<close>; otherwise the destination holds the source's bytes.
\<close>

definition copy2 :: "path \<Rightarrow> path \<Rightarrow> unit io" where
  "copy2 src dst w =
     (let target = (if nodes w dst = Some Dir then dst @ [path_name src] else dst) in
      case nodes w src of
        Some (File b) \<Rightarrow>
          if os_fails w (clock w) (Copy src dst) \<or> target = src \<or> nodes w target = Some Dir
          then io_fail (Copy src dst) w
          else (Inr (), tick (w\<lparr>nodes := (nodes w)(target \<mapsto> File b)\<rparr>))
      | _ \<Rightarrow> io_fail (Copy src dst) w)"

text \<open>
  \<^verbatim>\<open>Path.write_text(data, encoding="utf-8")\<close> opens the file for writing, which
  creates or truncates it, and then encodes and writes the text.
\<close>

definition write_text :: "lib \<Rightarrow> path \<Rightarrow> pystr \<Rightarrow> unit io" where
  "write_text L p s w =
     (if os_fails w (clock w) (Write p) \<or> nodes w p = Some Dir then io_fail (Write p) w
      else case utf8_encode L s of
             Inl e \<Rightarrow> (Inl e, tick (w\<lparr>nodes := (nodes w)(p \<mapsto> File [])\<rparr>))
           | Inr b \<Rightarrow> (Inr (), tick (w\<lparr>nodes := (nodes w)(p \<mapsto> File b)\<rparr>)))"

text \<open>
  \<^verbatim>\<open>src.replace(dst)\<close>, the atomic rename of a regular file (the script renames
  the file it has just written).
\<close>

definition replace :: "path \<Rightarrow> path \<Rightarrow> unit io" where
  "replace src dst w =
     (case nodes w src of
        Some (File b) \<Rightarrow>
          if os_fails w (clock w) (Rename src dst) \<or> nodes w dst = Some Dir
          then io_fail (Rename src dst) w
          else (Inr (), tick (w\<lparr>nodes := (nodes w)(src := None, dst \<mapsto> File b)\<rparr>))
      | _ \<Rightarrow> io_fail (Rename src dst) w)"

text \<open>\<^verbatim>\<open>print(line, file=sys.stderr)\<close>.\<close>

definition print_stderr :: "pystr \<Rightarrow> world \<Rightarrow> world" where
  "print_stderr line w = w\<lparr>stderr := stderr w @ [line]\<rparr>"

section \<open>The todos inclusion policy\<close>

text \<open>\<^verbatim>\<open>should_include_todos\<close>, lines 140 to 145.\<close>

definition should_include_todos :: "world \<Rightarrow> pystr \<Rightarrow> path \<Rightarrow> bool" where
  "should_include_todos w mode todos_path =
     (if mode = lit ''always'' then True
      else if mode = lit ''never'' then False
      else path_exists w todos_path)"

section \<open>The plan builder\<close>

record WorkspacePlan =
  path :: path
  user_id :: pystr
  workspace_id :: pystr
  name :: pystr
  changed :: bool
  skipped :: bool
  reason :: pystr
  before_mode :: "pystr option"
  before_extensions :: "pystr list"
  after_mode :: pystr
  after_extensions :: "pystr list"
  error :: "pystr option"

text \<open>
  \<^verbatim>\<open>build_plan\<close>, lines 148 to 229, with \<^verbatim>\<open>p\<close> for its \<^verbatim>\<open>path\<close>. It
  reads the file and leaves the world as it is, so it returns the plan alone. The two
  \<^verbatim>\<open>append\<close> calls rebind \<^verbatim>\<open>after_extensions\<close>.
\<close>

definition build_plan :: "lib \<Rightarrow> world \<Rightarrow> path \<Rightarrow> bool \<Rightarrow> bool \<Rightarrow> WorkspacePlan" where
  "build_plan L w p include_todos force =
     (let user_id = (if 2 \<le> length p then p ! (length p - 2) else lit ''unknown'');
          workspace_id = stem (path_name p)
      in case fst (load_json L p w) of
           Inl err \<Rightarrow>
             \<lparr>path = p, user_id = user_id, workspace_id = workspace_id, name = workspace_id,
              changed = False, skipped = True, reason = lit ''parse-error'',
              before_mode = None, before_extensions = [],
              after_mode = lit ''explicit'', after_extensions = [],
              error = Some (str_exn err)\<rparr>
         | Inr (JDict data) \<Rightarrow>
             (let name = (if py_bool (dict_get data (lit ''name''))
                          then py_str L (dict_get data (lit ''name'')) else workspace_id);
                  before_mode = (case dict_get data (lit ''extensionMode'') of
                                   JStr s \<Rightarrow> Some s | _ \<Rightarrow> None);
                  before_extensions = normalize_extensions (dict_get data (lit ''extensions''))
              in if before_mode = Some (lit ''explicit'') \<and> \<not> force then
                   \<lparr>path = p, user_id = user_id, workspace_id = workspace_id, name = name,
                    changed = False, skipped = True, reason = lit ''already-explicit'',
                    before_mode = before_mode, before_extensions = before_extensions,
                    after_mode = lit ''explicit'', after_extensions = before_extensions,
                    error = None\<rparr>
                 else
                   (let after_extensions = (if force then before_extensions else []);
                        after_extensions =
                          (if py_bool (dict_get data (lit ''memoryEnabled'')) \<and>
                              lit ''memory'' \<notin> set after_extensions
                           then after_extensions @ [lit ''memory''] else after_extensions);
                        after_extensions =
                          (if include_todos \<and> lit ''todos'' \<notin> set after_extensions
                           then after_extensions @ [lit ''todos''] else after_extensions);
                        changed = (before_mode \<noteq> Some (lit ''explicit'') \<or>
                                   before_extensions \<noteq> after_extensions)
                    in \<lparr>path = p, user_id = user_id, workspace_id = workspace_id, name = name,
                        changed = changed, skipped = False, reason = lit ''migrate'',
                        before_mode = before_mode, before_extensions = before_extensions,
                        after_mode = lit ''explicit'', after_extensions = after_extensions,
                        error = None\<rparr>))
         | Inr other \<Rightarrow>
             \<lparr>path = p, user_id = user_id, workspace_id = workspace_id, name = workspace_id,
              changed = False, skipped = True, reason = lit ''invalid-json-root'',
              before_mode = None, before_extensions = [],
              after_mode = lit ''explicit'', after_extensions = [],
              error = Some (lit ''workspace file root must be a JSON object'')\<rparr>)"

section \<open>The apply engine\<close>

text \<open>
  The \<^verbatim>\<open>try\<close> block of \<^verbatim>\<open>apply_plan\<close>, lines 245 to 260, for one plan: it
  returns normally, or with the exception that left the block.
\<close>

definition apply_plan_try :: "lib \<Rightarrow> path \<Rightarrow> path \<Rightarrow> WorkspacePlan \<Rightarrow> unit io" where
  "apply_plan_try L workspaces_dir backup_dir plan =
     then_do (load_json L (path plan)) (\<lambda>raw.
       case raw of
         JDict d \<Rightarrow>
           then_do (pure_op (relative_to (path plan) workspaces_dir)) (\<lambda>rel_path.
           let backup_path = joinpath backup_dir rel_path in
           then_do (mkdir_parents (parent backup_path)) (\<lambda>u1.
           then_do (copy2 (path plan) backup_path) (\<lambda>u2.
           let raw1 = dict_set d (lit ''extensionMode'') (JStr (after_mode plan));
               raw2 = dict_set raw1 (lit ''extensions'') (JList (map JStr (after_extensions plan)));
               serialized = json_dumps L (JDict raw2) 2 @ [10]
           in
           then_do (pure_op (tmp_path_of (path plan))) (\<lambda>tmp_path.
           then_do (write_text L tmp_path serialized) (\<lambda>u3.
           replace tmp_path (path plan))))))
       | _ \<Rightarrow> pure_op (Inl (ValueError (lit ''workspace root is not a JSON object''))))"

text \<open>
  The loop of \<^verbatim>\<open>apply_plan\<close>, lines 240 to 265, with its two counters, and the
  function itself, lines 232 to 267.
\<close>

definition error_line :: "path \<Rightarrow> exn \<Rightarrow> pystr" where
  "error_line p err = lit ''[error] failed to update '' @ path_str p @ lit '': '' @ str_exn err"

fun apply_plan_loop ::
  "lib \<Rightarrow> path \<Rightarrow> path \<Rightarrow> WorkspacePlan list \<Rightarrow> nat \<Rightarrow> nat \<Rightarrow> world \<Rightarrow> (nat \<times> nat) \<times> world"
where
  "apply_plan_loop L workspaces_dir backup_dir [] nchanged nfailed w = ((nchanged, nfailed), w)"
| "apply_plan_loop L workspaces_dir backup_dir (plan # plans) nchanged nfailed w =
     (if \<not> changed plan \<or> skipped plan
      then apply_plan_loop L workspaces_dir backup_dir plans nchanged nfailed w
      else case apply_plan_try L workspaces_dir backup_dir plan w of
             (Inr u, w') \<Rightarrow>
               apply_plan_loop L workspaces_dir backup_dir plans (nchanged + 1) nfailed w'
           | (Inl err, w') \<Rightarrow>
               apply_plan_loop L workspaces_dir backup_dir plans nchanged (nfailed + 1)
                 (print_stderr (error_line (path plan) err) w'))"

definition apply_plan ::
  "lib \<Rightarrow> WorkspacePlan list \<Rightarrow> path \<Rightarrow> path \<Rightarrow> world \<Rightarrow> (nat \<times> nat) \<times> world"
where
  "apply_plan L plans workspaces_dir backup_dir w =
     apply_plan_loop L workspaces_dir backup_dir plans 0 0 w"

text \<open>
  The run of \<^verbatim>\<open>apply_plan\<close> over a batch, plan by plan: the world after the first
  \<^verbatim>\<open>i\<close> plans; that plan \<^verbatim>\<open>i\<close> is one the function applies (its count of
  changed files rises there); and the backup path of a file, line 250.
\<close>

definition world_after :: "lib \<Rightarrow> WorkspacePlan list \<Rightarrow> path \<Rightarrow> path \<Rightarrow> world \<Rightarrow> nat \<Rightarrow> world" where
  "world_after L plans workspaces_dir backup_dir w i =
     snd (apply_plan L (take i plans) workspaces_dir backup_dir w)"

definition applied_at :: "lib \<Rightarrow> WorkspacePlan list \<Rightarrow> path \<Rightarrow> path \<Rightarrow> world \<Rightarrow> nat \<Rightarrow> bool" where
  "applied_at L plans workspaces_dir backup_dir w i =
     (i < length plans \<and>
      fst (fst (apply_plan L (take (Suc i) plans) workspaces_dir backup_dir w)) =
        Suc (fst (fst (apply_plan L (take i plans) workspaces_dir backup_dir w))))"

definition backup_path_of :: "path \<Rightarrow> path \<Rightarrow> path \<Rightarrow> path" where
  "backup_path_of workspaces_dir backup_dir p =
     joinpath backup_dir (drop (length workspaces_dir) p)"

section \<open>A small configuration store, for the examples\<close>

text \<open>
  Four workspace files of user \<^verbatim>\<open>alice\<close> under \<^verbatim>\<open>/w\<close>: a legacy record, a
  migrated one, a JSON array and a file that is not JSON; and a decoder, an encoder and
  a JSON codec that know these texts.
\<close>

definition example_legacy :: string where
  \<open>example_legacy = ''{"memoryEnabled": true}''\<close>

definition example_explicit :: string where
  \<open>example_explicit = ''{"extensionMode": "explicit", "extensions": ["x"]}''\<close>

definition example_migrated :: string where
  \<open>example_migrated = ''{"memoryEnabled": true, "extensionMode": "explicit", "extensions": ["memory", "todos"]}''\<close>

definition example_loads :: "pystr \<Rightarrow> exn + json" where
  "example_loads text =
     (if text = lit example_legacy then Inr (JDict [(lit ''memoryEnabled'', JBool True)])
      else if text = lit example_explicit
        then Inr (JDict [(lit ''extensionMode'', JStr (lit ''explicit'')),
                         (lit ''extensions'', JList [JStr (lit ''x'')])])
      else if text = lit ''[]'' then Inr (JList [])
      else Inl (JSONDecodeError (lit ''Expecting value: line 1 column 1 (char 0)'')))"

definition example_dumps :: "json \<Rightarrow> nat \<Rightarrow> pystr" where
  "example_dumps v indent =
     (if v = JDict [(lit ''memoryEnabled'', JBool True),
                    (lit ''extensionMode'', JStr (lit ''explicit'')),
                    (lit ''extensions'', JList [JStr (lit ''memory''), JStr (lit ''todos'')])]
      then lit example_migrated else lit ''null'')"

definition example_lib :: lib where
  "example_lib =
     \<lparr>utf8_decode = (\<lambda>b. Inr (map of_char b)),
      utf8_encode = (\<lambda>s. Inr (map char_of s)),
      json_loads = example_loads,
      json_dumps = example_dumps,
      py_repr = (\<lambda>v. lit ''?'')\<rparr>"

definition alice :: "string \<Rightarrow> path" where
  "alice file = [lit ''/'', lit ''w'', lit ''alice'', lit file]"

definition example_world :: world where
  "example_world =
     \<lparr>nodes = map_of
        [(alice ''a.json'', File example_legacy),
         (alice ''b.json'', File example_explicit),
         (alice ''c.json'', File ''[]''),
         (alice ''d.json'', File ''{broken''),
         ([lit ''/'', lit ''w'', lit ''alice''], Dir),
         ([lit ''/'', lit ''w''], Dir),
         ([lit ''/''], Dir)],
      clock = 0,
      os_fails = (\<lambda>t op. False),
      os_error = (\<lambda>t op. OSError (lit ''Input/output error'')),
      stderr = []\<rparr>"

definition wdir :: path where
  "wdir = [lit ''/'', lit ''w'']"

definition bdir :: path where
  "bdir = [lit ''/'', lit ''b'']"

text \<open>
  A batch for the store: the legacy record, the file that is not JSON, and a plan for a
  file that is not there.
\<close>

definition example_batch :: "WorkspacePlan list" where
  "example_batch =
     [build_plan example_lib example_world (alice ''a.json'') True False,
      build_plan example_lib example_world (alice ''d.json'') True False,
      (build_plan example_lib example_world (alice ''a.json'') True False)
        \<lparr>path := alice ''e.json''\<rparr>]"

text \<open>
  Two more inputs. A record whose \<^verbatim>\<open>memoryEnabled\<close> is the string
  \<^verbatim>\<open>"false"\<close>, with a codec that reads it. And the batch that
  \<^verbatim>\<open>--user-id alice --user-id alice\<close> gives for the legacy record: discovery lists
  the file once for each \<^verbatim>\<open>--user-id\<close>, lines 125 to 130, and every plan is built
  before any is applied, line 320; the codec reads the migrated text as well, since the
  second plan reads the file the first one wrote.
\<close>

definition stringly_text :: string where
  \<open>stringly_text = ''{"memoryEnabled": "false"}''\<close>

definition stringly_lib :: lib where
  "stringly_lib =
     example_lib\<lparr>json_loads :=
       (\<lambda>text. if text = lit stringly_text
               then Inr (JDict [(lit ''memoryEnabled'', JStr (lit ''false''))])
               else example_loads text)\<rparr>"

definition stringly_world :: world where
  "stringly_world =
     example_world\<lparr>nodes := (nodes example_world)(alice ''f.json'' \<mapsto> File stringly_text)\<rparr>"

definition rerun_lib :: lib where
  "rerun_lib =
     example_lib\<lparr>json_loads :=
       (\<lambda>text. if text = lit example_migrated @ [10]
               then Inr (JDict [(lit ''memoryEnabled'', JBool True),
                                (lit ''extensionMode'', JStr (lit ''explicit'')),
                                (lit ''extensions'', JList [JStr (lit ''memory''), JStr (lit ''todos'')])])
               else example_loads text)\<rparr>"

definition duplicate_batch :: "WorkspacePlan list" where
  "duplicate_batch =
     [build_plan rerun_lib example_world (alice ''a.json'') True False,
      build_plan rerun_lib example_world (alice ''a.json'') True False]"

section \<open>Literals\<close>

lemma lit_eq_iff [simp]: "lit a = lit b \<longleftrightarrow> a = b"
  unfolding lit_def by (simp add: inj_map_eq_map inj_on_def)

lemma lit_Nil_iff [simp]: "lit a = [] \<longleftrightarrow> a = []"
  unfolding lit_def by auto

section \<open>The normalizer is the specified function\<close>

lemma keep_first_set [simp]: "set (keep_first xs) = set xs"
  by (induction xs rule: keep_first.induct) auto

lemma keep_first_distinct [simp]: "distinct (keep_first xs)"
  by (induction xs rule: keep_first.induct) auto

text \<open>
  The loop invariant: what is still to come is appended to \<^verbatim>\<open>out\<close>, without the names
  already seen.
\<close>

lemma normalize_loop_spec:
  "normalize_loop items seen out =
     out @ keep_first (filter (\<lambda>n. n \<notin> seen)
             (filter (\<lambda>n. n \<noteq> []) (map strip (string_items items))))"
proof (induction items arbitrary: seen out)
  case Nil
  show ?case by simp
next
  case (Cons item rest)
  show ?case
  proof (cases item)
    case (JStr s)
    then show ?thesis
      by (simp add: Let_def Cons.IH conj_ac)
  qed (simp_all add: Cons.IH)
qed

lemma normalize_extensions_refines: "normalize_extensions v = normalize_spec v"
  by (cases v) (simp_all add: normalize_extensions_def normalize_spec_def normalize_loop_spec)

lemma string_items_set: "set (string_items items) = {s. JStr s \<in> set items}"
  by (induction items rule: string_items.induct) auto

text \<open>
  C8. \<^verbatim>\<open>normalize_extensions\<close> is total; a value that is not a list gives the empty
  list; a list gives the trimmed, non-empty string items, each kept at its first
  occurrence and in that order, so the result has no duplicate and no empty name; and
  \<^verbatim>\<open>["memory", " memory ", "", 5, "todos", "memory"]\<close> gives
  \<^verbatim>\<open>["memory", "todos"]\<close>.
\<close>

theorem normalize_extensions_total:
  "normalize_extensions v = normalize_spec v
   \<and> distinct (normalize_extensions v)
   \<and> [] \<notin> set (normalize_extensions v)
   \<and> (\<forall>items. v = JList items \<longrightarrow>
        normalize_extensions v =
          keep_first (filter (\<lambda>n. n \<noteq> []) (map strip (string_items items)))
        \<and> set (normalize_extensions v) = {strip s |s. JStr s \<in> set items \<and> strip s \<noteq> []})
   \<and> ((\<forall>items. v \<noteq> JList items) \<longrightarrow> normalize_extensions v = [])
   \<and> normalize_extensions
        (JList [JStr (lit ''memory''), JStr (lit '' memory ''), JStr (lit ''''), JInt 5,
                JStr (lit ''todos''), JStr (lit ''memory'')]) = [lit ''memory'', lit ''todos'']"
proof -
  have ex: "normalize_extensions
        (JList [JStr (lit ''memory''), JStr (lit '' memory ''), JStr (lit ''''), JInt 5,
                JStr (lit ''todos''), JStr (lit ''memory'')]) = [lit ''memory'', lit ''todos'']"
    by (simp add: normalize_extensions_def strip_def isspace_def lit_def)
  have nl: "(\<forall>items. v \<noteq> JList items) \<longrightarrow> normalize_extensions v = []"
    by (cases v) (simp_all add: normalize_extensions_def)
  have st: "\<forall>items. v = JList items \<longrightarrow>
        normalize_extensions v =
          keep_first (filter (\<lambda>n. n \<noteq> []) (map strip (string_items items)))
        \<and> set (normalize_extensions v) = {strip s |s. JStr s \<in> set items \<and> strip s \<noteq> []}"
    by (auto simp: normalize_extensions_refines normalize_spec_def string_items_set)
  have d: "distinct (normalize_extensions v)" "[] \<notin> set (normalize_extensions v)"
    by (cases v; simp add: normalize_extensions_refines normalize_spec_def)+
  show ?thesis using ex nl st d normalize_extensions_refines by blast
qed

theorem normalize_extensions_total_witness:
  "normalize_extensions (JList [JStr (lit '' a ''), JBool True, JStr (lit ''b''), JStr (lit ''a'')])
     = normalize_spec (JList [JStr (lit '' a ''), JBool True, JStr (lit ''b''), JStr (lit ''a'')])
   \<and> normalize_spec (JList [JStr (lit '' a ''), JBool True, JStr (lit ''b''), JStr (lit ''a'')])
     = [lit ''a'', lit ''b'']
   \<and> normalize_extensions (JStr (lit ''memory'')) = []"
proof -
  let ?v = "JList [JStr (lit '' a ''), JBool True, JStr (lit ''b''), JStr (lit ''a'')]"
  have 1: "normalize_extensions ?v = normalize_spec ?v"
    using normalize_extensions_total [of ?v] by (rule conjunct1)
  have 2: "normalize_spec ?v = [lit ''a'', lit ''b'']"
    by (simp add: normalize_spec_def strip_def isspace_def lit_def)
  have "\<forall>items. JStr (lit ''memory'') \<noteq> JList items" by simp
  with normalize_extensions_total [of "JStr (lit ''memory'')"]
  have 3: "normalize_extensions (JStr (lit ''memory'')) = []" by blast
  from 1 2 3 show ?thesis by (intro conjI)
qed

section \<open>The inclusion policy\<close>

text \<open>
  C9. \<^verbatim>\<open>should_include_todos\<close> is true for the mode \<^verbatim>\<open>always\<close> and false for
  \<^verbatim>\<open>never\<close>, whatever the probe file; for \<^verbatim>\<open>auto\<close> (and for any other mode
  string) it is true exactly when the probe path exists in the file system at the call.
\<close>

theorem should_include_todos_policy:
  "should_include_todos w (lit ''always'') p = True
   \<and> should_include_todos w (lit ''never'') p = False
   \<and> should_include_todos w (lit ''auto'') p = (nodes w p \<noteq> None)
   \<and> (mode \<noteq> lit ''always'' \<longrightarrow> mode \<noteq> lit ''never'' \<longrightarrow>
        should_include_todos w mode p = (nodes w p \<noteq> None))"
  by (simp add: should_include_todos_def path_exists_def)

theorem should_include_todos_policy_witness:
  "should_include_todos example_world (lit ''auto'') (alice ''a.json'') = True
   \<and> should_include_todos example_world (lit ''auto'') (alice ''todos.ts'') = False
   \<and> should_include_todos example_world (lit ''always'') (alice ''todos.ts'') = True
   \<and> should_include_todos example_world (lit ''never'') (alice ''a.json'') = False"
  using should_include_todos_policy [of example_world "alice ''a.json''" "lit ''auto''"]
        should_include_todos_policy [of example_world "alice ''todos.ts''" "lit ''auto''"]
  by (simp add: example_world_def alice_def)

section \<open>The plan builder, case by case\<close>

lemma build_plan_load_error:
  assumes "fst (load_json L p w) = Inl err"
  shows "build_plan L w p include_todos force =
           \<lparr>path = p,
            user_id = (if 2 \<le> length p then p ! (length p - 2) else lit ''unknown''),
            workspace_id = stem (path_name p), name = stem (path_name p),
            changed = False, skipped = True, reason = lit ''parse-error'',
            before_mode = None, before_extensions = [],
            after_mode = lit ''explicit'', after_extensions = [],
            error = Some (str_exn err)\<rparr>"
  using assms by (simp add: build_plan_def Let_def)

lemma build_plan_not_object:
  assumes "fst (load_json L p w) = Inr v" and "\<forall>d. v \<noteq> JDict d"
  shows "build_plan L w p include_todos force =
           \<lparr>path = p,
            user_id = (if 2 \<le> length p then p ! (length p - 2) else lit ''unknown''),
            workspace_id = stem (path_name p), name = stem (path_name p),
            changed = False, skipped = True, reason = lit ''invalid-json-root'',
            before_mode = None, before_extensions = [],
            after_mode = lit ''explicit'', after_extensions = [],
            error = Some (lit ''workspace file root must be a JSON object'')\<rparr>"
  using assms by (cases v) (simp_all add: build_plan_def Let_def)


lemma build_plan_object:
  assumes "fst (load_json L p w) = Inr (JDict data)"
  shows "build_plan L w p include_todos force =
     (let uid = (if 2 \<le> length p then p ! (length p - 2) else lit ''unknown'');
          wid = stem (path_name p);
          nm = (if py_bool (dict_get data (lit ''name''))
                then py_str L (dict_get data (lit ''name'')) else wid);
          bmode = (case dict_get data (lit ''extensionMode'') of JStr s \<Rightarrow> Some s | _ \<Rightarrow> None);
          bexts = normalize_extensions (dict_get data (lit ''extensions''))
      in if bmode = Some (lit ''explicit'') \<and> \<not> force then
           \<lparr>path = p, user_id = uid, workspace_id = wid, name = nm,
            changed = False, skipped = True, reason = lit ''already-explicit'',
            before_mode = bmode, before_extensions = bexts,
            after_mode = lit ''explicit'', after_extensions = bexts,
            error = None\<rparr>
         else
           (let a0 = (if force then bexts else []);
                a1 = (if py_bool (dict_get data (lit ''memoryEnabled'')) \<and>
                         lit ''memory'' \<notin> set a0
                      then a0 @ [lit ''memory''] else a0);
                a2 = (if include_todos \<and> lit ''todos'' \<notin> set a1
                      then a1 @ [lit ''todos''] else a1);
                ch = (bmode \<noteq> Some (lit ''explicit'') \<or> bexts \<noteq> a2)
            in \<lparr>path = p, user_id = uid, workspace_id = wid, name = nm,
                changed = ch, skipped = False, reason = lit ''migrate'',
                before_mode = bmode, before_extensions = bexts,
                after_mode = lit ''explicit'', after_extensions = a2,
                error = None\<rparr>))"
  unfolding build_plan_def assms by simp

lemma mode_explicit_iff:
  "(case dict_get data (lit ''extensionMode'') of JStr s \<Rightarrow> Some s | _ \<Rightarrow> None) = Some (lit ''explicit'')
     \<longleftrightarrow> dict_get data (lit ''extensionMode'') = JStr (lit ''explicit'')"
  by (cases "dict_get data (lit ''extensionMode'')") simp_all

lemma build_plan_object_migrate:
  assumes "fst (load_json L p w) = Inr (JDict data)"
    and "\<not> (dict_get data (lit ''extensionMode'') = JStr (lit ''explicit'') \<and> \<not> force)"
  shows "\<not> skipped (build_plan L w p include_todos force)"
    and "before_mode (build_plan L w p include_todos force) =
           (case dict_get data (lit ''extensionMode'') of JStr s \<Rightarrow> Some s | _ \<Rightarrow> None)"
    and "before_extensions (build_plan L w p include_todos force) =
           normalize_extensions (dict_get data (lit ''extensions''))"
    and "after_extensions (build_plan L w p include_todos force) =
           (let a0 = (if force then normalize_extensions (dict_get data (lit ''extensions'')) else []);
                a1 = (if py_bool (dict_get data (lit ''memoryEnabled'')) \<and> lit ''memory'' \<notin> set a0
                      then a0 @ [lit ''memory''] else a0)
            in if include_todos \<and> lit ''todos'' \<notin> set a1 then a1 @ [lit ''todos''] else a1)"
    and "changed (build_plan L w p include_todos force) =
           (before_mode (build_plan L w p include_todos force) \<noteq> Some (lit ''explicit'') \<or>
            before_extensions (build_plan L w p include_todos force) \<noteq>
              after_extensions (build_plan L w p include_todos force))"
  unfolding build_plan_object [OF assms(1)] Let_def mode_explicit_iff if_not_P [OF assms(2)]
  by (simp_all add: mode_explicit_iff split del: if_split)


lemma build_plan_object_skip:
  assumes "fst (load_json L p w) = Inr (JDict data)"
    and "dict_get data (lit ''extensionMode'') = JStr (lit ''explicit'')" and "\<not> force"
  shows "build_plan L w p include_todos force =
           \<lparr>path = p,
            user_id = (if 2 \<le> length p then p ! (length p - 2) else lit ''unknown''),
            workspace_id = stem (path_name p),
            name = (if py_bool (dict_get data (lit ''name''))
                    then py_str L (dict_get data (lit ''name'')) else stem (path_name p)),
            changed = False, skipped = True, reason = lit ''already-explicit'',
            before_mode = Some (lit ''explicit''),
            before_extensions = normalize_extensions (dict_get data (lit ''extensions'')),
            after_mode = lit ''explicit'',
            after_extensions = normalize_extensions (dict_get data (lit ''extensions'')),
            error = None\<rparr>"
  using assms by (simp add: build_plan_def Let_def)

lemma build_plan_skipped_iff:
  "skipped (build_plan L w p include_todos force) \<longleftrightarrow>
     (\<forall>data. fst (load_json L p w) = Inr (JDict data) \<longrightarrow>
        dict_get data (lit ''extensionMode'') = JStr (lit ''explicit'') \<and> \<not> force)"
proof (cases "fst (load_json L p w)")
  case (Inl err)
  then show ?thesis by (simp add: build_plan_load_error)
next
  case (Inr v)
  show ?thesis
  proof (cases v)
    case (JDict data)
    with Inr show ?thesis
      by (cases "dict_get data (lit ''extensionMode'')") (simp_all add: build_plan_def Let_def)
  qed (use Inr in \<open>simp_all add: build_plan_not_object\<close>)
qed

lemma build_plan_not_skipped:
  assumes "\<not> skipped (build_plan L w p include_todos force)"
  obtains data where "fst (load_json L p w) = Inr (JDict data)"
    and "\<not> (dict_get data (lit ''extensionMode'') = JStr (lit ''explicit'') \<and> \<not> force)"
  using assms unfolding build_plan_skipped_iff by blast

section \<open>The example store, read\<close>

lemma example_decode: "utf8_decode example_lib b = Inr (lit b)"
  by (simp add: example_lib_def lit_def)

lemma example_read:
  assumes "nodes example_world p = Some (File b)"
  shows "fst (load_json example_lib p example_world) = example_loads (lit b)"
proof -
  have f: "\<not> os_fails example_world (clock example_world) (Read p)"
    by (simp add: example_world_def)
  have l: "json_loads example_lib = example_loads"
    by (simp add: example_lib_def)
  show ?thesis
    using assms f
    by (simp add: load_json_def read_text_def read_bytes_def then_do_def pure_op_def
        example_decode l)
qed

lemma example_load_a:
  "fst (load_json example_lib (alice ''a.json'') example_world) =
     Inr (JDict [(lit ''memoryEnabled'', JBool True)])"
  by (subst example_read [of _ example_legacy])
     (simp_all add: example_world_def alice_def example_loads_def)

lemma example_load_b:
  "fst (load_json example_lib (alice ''b.json'') example_world) =
     Inr (JDict [(lit ''extensionMode'', JStr (lit ''explicit'')),
                 (lit ''extensions'', JList [JStr (lit ''x'')])])"
  by (subst example_read [of _ example_explicit])
     (simp_all add: example_world_def alice_def example_loads_def example_legacy_def
        example_explicit_def)

lemma example_load_c:
  "fst (load_json example_lib (alice ''c.json'') example_world) = Inr (JList [])"
  by (subst example_read [of _ "''[]''"])
     (simp_all add: example_world_def alice_def example_loads_def example_legacy_def
        example_explicit_def)

lemma example_load_d:
  "fst (load_json example_lib (alice ''d.json'') example_world) =
     Inl (JSONDecodeError (lit ''Expecting value: line 1 column 1 (char 0)''))"
  by (subst example_read [of _ "''{broken''"])
     (simp_all add: example_world_def alice_def example_loads_def example_legacy_def
        example_explicit_def)

lemma example_normalize_x:
  "normalize_extensions (JList [JStr (lit ''x'')]) = [lit ''x'']"
  by (simp add: normalize_extensions_def strip_def isspace_def lit_def)

section \<open>Properties of the plan builder\<close>

text \<open>
  C1. When the file parses to an object whose \<^verbatim>\<open>extensionMode\<close> is the string
  \<^verbatim>\<open>explicit\<close> and \<^verbatim>\<open>force\<close> is false, the plan is skipped with the reason
  \<^verbatim>\<open>already-explicit\<close>, not changed, without an error, and its after-state is its
  before-state: the mode \<^verbatim>\<open>explicit\<close> and the normalized list of the file.
  Applying such a plan writes nothing and counts nothing.
\<close>

theorem build_plan_already_explicit:
  assumes "fst (load_json L p w) = Inr (JDict data)"
    and "dict_get data (lit ''extensionMode'') = JStr (lit ''explicit'')"
  shows "skipped (build_plan L w p include_todos False)
    \<and> reason (build_plan L w p include_todos False) = lit ''already-explicit''
    \<and> \<not> changed (build_plan L w p include_todos False)
    \<and> error (build_plan L w p include_todos False) = None
    \<and> before_mode (build_plan L w p include_todos False) = Some (lit ''explicit'')
    \<and> after_mode (build_plan L w p include_todos False) = lit ''explicit''
    \<and> before_extensions (build_plan L w p include_todos False) =
         normalize_extensions (dict_get data (lit ''extensions''))
    \<and> after_extensions (build_plan L w p include_todos False) =
         before_extensions (build_plan L w p include_todos False)
    \<and> apply_plan L [build_plan L w p include_todos False] workspaces_dir backup_dir w' = ((0, 0), w')"
  using assms by (simp add: build_plan_object_skip apply_plan_def)

theorem build_plan_already_explicit_witness:
  "skipped (build_plan example_lib example_world (alice ''b.json'') True False)
   \<and> reason (build_plan example_lib example_world (alice ''b.json'') True False) = lit ''already-explicit''
   \<and> \<not> changed (build_plan example_lib example_world (alice ''b.json'') True False)
   \<and> before_extensions (build_plan example_lib example_world (alice ''b.json'') True False) = [lit ''x'']
   \<and> after_extensions (build_plan example_lib example_world (alice ''b.json'') True False) = [lit ''x'']"
proof -
  have h: "dict_get [(lit ''extensionMode'', JStr (lit ''explicit'')),
                     (lit ''extensions'', JList [JStr (lit ''x'')])] (lit ''extensionMode'')
           = JStr (lit ''explicit'')"
    by (simp add: dict_get_def)
  have g: "dict_get [(lit ''extensionMode'', JStr (lit ''explicit'')),
                     (lit ''extensions'', JList [JStr (lit ''x'')])] (lit ''extensions'')
           = JList [JStr (lit ''x'')]"
    by (simp add: dict_get_def)
  note t = build_plan_already_explicit [OF example_load_b h, of True "[]" "[]" example_world]
  from t show ?thesis unfolding g example_normalize_x by simp
qed

text \<open>
  C2. For a plan that is not skipped, the after-extensions are the normalized list of
  the file when \<^verbatim>\<open>force\<close> is true and the empty list otherwise, followed by
  \<^verbatim>\<open>memory\<close> when \<^verbatim>\<open>bool(memoryEnabled)\<close> is true and \<^verbatim>\<open>memory\<close> is not
  there yet, followed by \<^verbatim>\<open>todos\<close> when the inclusion flag is true and
  \<^verbatim>\<open>todos\<close> is not there yet. For a boolean field \<^verbatim>\<open>bool\<close> is the field itself;
  with \<^verbatim>\<open>memoryEnabled = true\<close>, no force and no inclusion the result is
  \<^verbatim>\<open>["memory"]\<close>.
\<close>

theorem build_plan_after_extensions:
  assumes "\<not> skipped (build_plan L w p include_todos force)"
  shows "\<exists>data. fst (load_json L p w) = Inr (JDict data) \<and>
     (let start = (if force then normalize_extensions (dict_get data (lit ''extensions'')) else []);
          memory = (py_bool (dict_get data (lit ''memoryEnabled'')) \<and> lit ''memory'' \<notin> set start);
          todos = (include_todos \<and> lit ''todos'' \<notin> set start)
      in after_extensions (build_plan L w p include_todos force) =
           start @ (if memory then [lit ''memory''] else []) @ (if todos then [lit ''todos''] else [])
         \<and> (dict_get data (lit ''memoryEnabled'') = JBool True \<and> \<not> force \<and> \<not> include_todos
              \<longrightarrow> after_extensions (build_plan L w p include_todos force) = [lit ''memory''])
         \<and> (\<forall>b. dict_get data (lit ''memoryEnabled'') = JBool b \<longrightarrow>
                py_bool (dict_get data (lit ''memoryEnabled'')) = b))"
proof -
  from assms obtain data where d: "fst (load_json L p w) = Inr (JDict data)"
    and m: "\<not> (dict_get data (lit ''extensionMode'') = JStr (lit ''explicit'') \<and> \<not> force)"
    by (rule build_plan_not_skipped)
  let ?start = "if force then normalize_extensions (dict_get data (lit ''extensions'')) else []"
  have ae: "after_extensions (build_plan L w p include_todos force) =
      ?start
      @ (if py_bool (dict_get data (lit ''memoryEnabled'')) \<and> lit ''memory'' \<notin> set ?start
         then [lit ''memory''] else [])
      @ (if include_todos \<and> lit ''todos'' \<notin> set ?start then [lit ''todos''] else [])"
    unfolding build_plan_object_migrate(4) [OF d m] by (simp add: Let_def)
  have main: "fst (load_json L p w) = Inr (JDict data) \<and>
     (let start = ?start;
          memory = (py_bool (dict_get data (lit ''memoryEnabled'')) \<and> lit ''memory'' \<notin> set start);
          todos = (include_todos \<and> lit ''todos'' \<notin> set start)
      in after_extensions (build_plan L w p include_todos force) =
           start @ (if memory then [lit ''memory''] else []) @ (if todos then [lit ''todos''] else [])
         \<and> (dict_get data (lit ''memoryEnabled'') = JBool True \<and> \<not> force \<and> \<not> include_todos
              \<longrightarrow> after_extensions (build_plan L w p include_todos force) = [lit ''memory''])
         \<and> (\<forall>b. dict_get data (lit ''memoryEnabled'') = JBool b \<longrightarrow>
                py_bool (dict_get data (lit ''memoryEnabled'')) = b))"
    unfolding Let_def ae using d by simp
  show ?thesis by (rule exI [of _ data]) (rule main)
qed

theorem build_plan_after_extensions_witness:
  "\<not> skipped (build_plan example_lib example_world (alice ''a.json'') False False)
   \<and> after_extensions (build_plan example_lib example_world (alice ''a.json'') False False)
       = [lit ''memory'']"
proof -
  have ns: "\<not> skipped (build_plan example_lib example_world (alice ''a.json'') False False)"
    by (simp add: build_plan_skipped_iff example_load_a dict_get_def)
  from build_plan_after_extensions [OF ns]
  have "after_extensions (build_plan example_lib example_world (alice ''a.json'') False False)
       = [lit ''memory'']"
    by (simp add: example_load_a dict_get_def)
  with ns show ?thesis by simp
qed

text \<open>
  C2 cannot say "when \<^verbatim>\<open>memoryEnabled\<close> is true": the record
  \<^verbatim>\<open>{"memoryEnabled": "false"}\<close> holds a string, which is not \<^verbatim>\<open>true\<close>, and
  its plan has \<^verbatim>\<open>memory\<close> appended all the same, since a string that is not empty
  is truthy.
\<close>

theorem build_plan_after_extensions_counterexample:
  "fst (load_json stringly_lib (alice ''f.json'') stringly_world) =
     Inr (JDict [(lit ''memoryEnabled'', JStr (lit ''false''))])
   \<and> JStr (lit ''false'') \<noteq> JBool True
   \<and> \<not> skipped (build_plan stringly_lib stringly_world (alice ''f.json'') False False)
   \<and> after_extensions (build_plan stringly_lib stringly_world (alice ''f.json'') False False) =
       [lit ''memory'']"
  by code_simp



text \<open>
  C10. \<^verbatim>\<open>memoryEnabled\<close> is read by truth value. In a plan that is not skipped,
  \<^verbatim>\<open>memory\<close> is among the after-extensions exactly when the field is truthy (a
  true boolean, a number other than zero, a non-empty string, array or object) or a
  forced run finds it in the list of the file; \<^verbatim>\<open>false\<close>, zero, the empty string,
  \<^verbatim>\<open>null\<close> and a missing field do not add it.
\<close>

theorem build_plan_memory_truthiness:
  assumes "fst (load_json L p w) = Inr (JDict data)"
    and "\<not> skipped (build_plan L w p include_todos force)"
  shows "lit ''memory'' \<in> set (after_extensions (build_plan L w p include_todos force)) \<longleftrightarrow>
           (case map_of data (lit ''memoryEnabled'') of
              None \<Rightarrow> False
            | Some JNull \<Rightarrow> False
            | Some (JBool b) \<Rightarrow> b
            | Some (JInt i) \<Rightarrow> i \<noteq> 0
            | Some (JFloat x) \<Rightarrow> float_nonzero x
            | Some (JStr s) \<Rightarrow> s \<noteq> []
            | Some (JList xs) \<Rightarrow> xs \<noteq> []
            | Some (JDict d) \<Rightarrow> d \<noteq> [])
           \<or> (force \<and> lit ''memory'' \<in> set (normalize_extensions (dict_get data (lit ''extensions''))))"
proof -
  from assms(2) obtain data' where d': "fst (load_json L p w) = Inr (JDict data')"
    and m': "\<not> (dict_get data' (lit ''extensionMode'') = JStr (lit ''explicit'') \<and> \<not> force)"
    by (rule build_plan_not_skipped)
  from d' assms(1) have "data' = data" by simp
  with m' have m: "\<not> (dict_get data (lit ''extensionMode'') = JStr (lit ''explicit'') \<and> \<not> force)"
    by simp
  have t: "py_bool (dict_get data (lit ''memoryEnabled'')) =
           (case map_of data (lit ''memoryEnabled'') of
              None \<Rightarrow> False
            | Some JNull \<Rightarrow> False
            | Some (JBool b) \<Rightarrow> b
            | Some (JInt i) \<Rightarrow> i \<noteq> 0
            | Some (JFloat x) \<Rightarrow> float_nonzero x
            | Some (JStr s) \<Rightarrow> s \<noteq> []
            | Some (JList xs) \<Rightarrow> xs \<noteq> []
            | Some (JDict d) \<Rightarrow> d \<noteq> [])"
    by (simp add: dict_get_def split: option.splits json.splits)
  show ?thesis
    unfolding t [symmetric] build_plan_object_migrate(4) [OF assms(1) m]
    by (auto simp: Let_def)
qed

theorem build_plan_memory_truthiness_witness:
  "\<not> skipped (build_plan example_lib example_world (alice ''a.json'') False False)
   \<and> lit ''memory'' \<in> set (after_extensions
         (build_plan example_lib example_world (alice ''a.json'') False False))"
proof -
  have ns: "\<not> skipped (build_plan example_lib example_world (alice ''a.json'') False False)"
    by (simp add: build_plan_skipped_iff example_load_a dict_get_def)
  from build_plan_memory_truthiness [OF example_load_a ns]
  have "lit ''memory'' \<in> set (after_extensions
         (build_plan example_lib example_world (alice ''a.json'') False False))"
    by simp
  with ns show ?thesis by simp
qed

section \<open>The primitives, when they succeed\<close>

lemma tick_simps [simp]:
  "nodes (tick w) = nodes w" "stderr (tick w) = stderr w" "clock (tick w) = Suc (clock w)"
  "os_fails (tick w) = os_fails w" "os_error (tick w) = os_error w"
  by (simp_all add: tick_def)

lemma then_do_Inr:
  "then_do m f w = (Inr y, w') \<longleftrightarrow> (\<exists>x w1. m w = (Inr x, w1) \<and> f x w1 = (Inr y, w'))"
  by (auto simp: then_do_def split: prod.splits sum.splits)

lemma pure_op_Inr: "pure_op r w = (Inr x, w') \<longleftrightarrow> r = Inr x \<and> w' = w"
  by (auto simp: pure_op_def)

lemma io_fail_Inr [simp]: "io_fail op w \<noteq> (Inr x, w')"
  by (simp add: io_fail_def)

lemma read_bytes_Inr:
  "read_bytes p w = (Inr b, w') \<longleftrightarrow>
     nodes w p = Some (File b) \<and> \<not> os_fails w (clock w) (Read p) \<and> w' = tick w"
  by (auto simp: read_bytes_def split: option.splits node.splits)

lemma load_json_Inr:
  "load_json L p w = (Inr v, w') \<longleftrightarrow>
     (\<exists>b text. nodes w p = Some (File b) \<and> \<not> os_fails w (clock w) (Read p) \<and>
        utf8_decode L b = Inr text \<and> json_loads L text = Inr v \<and> w' = tick w)"
  unfolding load_json_def read_text_def then_do_Inr pure_op_Inr read_bytes_Inr by blast

lemma mkdir_parents_Inr:
  "mkdir_parents d w = (Inr u, w') \<longleftrightarrow>
     \<not> os_fails w (clock w) (Mkdir d) \<and> \<not> list_ex (\<lambda>q. is_file (nodes w q)) (ancestors_self d) \<and>
     w' = tick (w\<lparr>nodes := (\<lambda>q. if q \<in> set (ancestors_self d) then Some Dir else nodes w q)\<rparr>)"
  by (auto simp: mkdir_parents_def)

lemma copy2_Inr:
  "copy2 src dst w = (Inr u, w') \<longleftrightarrow>
     (\<exists>b. nodes w src = Some (File b) \<and> \<not> os_fails w (clock w) (Copy src dst) \<and>
        (if nodes w dst = Some Dir then dst @ [path_name src] else dst) \<noteq> src \<and>
        nodes w (if nodes w dst = Some Dir then dst @ [path_name src] else dst) \<noteq> Some Dir \<and>
        w' = tick (w\<lparr>nodes := (nodes w)((if nodes w dst = Some Dir then dst @ [path_name src] else dst) \<mapsto> File b)\<rparr>))"
  by (auto simp: copy2_def Let_def split: option.splits node.splits)

lemma write_text_Inr:
  "write_text L p s w = (Inr u, w') \<longleftrightarrow>
     (\<exists>b. \<not> os_fails w (clock w) (Write p) \<and> nodes w p \<noteq> Some Dir \<and> utf8_encode L s = Inr b \<and>
        w' = tick (w\<lparr>nodes := (nodes w)(p \<mapsto> File b)\<rparr>))"
  by (auto simp: write_text_def split: sum.splits)

lemma replace_Inr:
  "replace src dst w = (Inr u, w') \<longleftrightarrow>
     (\<exists>b. nodes w src = Some (File b) \<and> \<not> os_fails w (clock w) (Rename src dst) \<and>
        nodes w dst \<noteq> Some Dir \<and>
        w' = tick (w\<lparr>nodes := (nodes w)(src := None, dst \<mapsto> File b)\<rparr>))"
  by (auto simp: replace_def split: option.splits node.splits)

section \<open>The try block, when it returns normally\<close>

lemma apply_plan_try_Inr:
  assumes "apply_plan_try L wd bd plan w = (Inr u, w')"
  shows "\<exists>b0 text d rel tmp b.
      nodes w (path plan) = Some (File b0) \<and> utf8_decode L b0 = Inr text \<and>
      json_loads L text = Inr (JDict d) \<and>
      relative_to (path plan) wd = Inr rel \<and>
      tmp_path_of (path plan) = Inr tmp \<and>
      utf8_encode L (json_dumps L (JDict (dict_set (dict_set d (lit ''extensionMode'')
          (JStr (after_mode plan))) (lit ''extensions'')
          (JList (map JStr (after_extensions plan))))) 2 @ [10]) = Inr b \<and>
      (let bp = joinpath bd rel;
           n2 = (\<lambda>q. if q \<in> set (ancestors_self (parent bp)) then Some Dir else nodes w q);
           target = (if n2 bp = Some Dir then bp @ [path_name (path plan)] else bp)
       in target \<noteq> path plan \<and> n2 (path plan) = Some (File b0) \<and>
          nodes w' = (n2(target \<mapsto> File b0, tmp \<mapsto> File b))(tmp := None, path plan \<mapsto> File b)) \<and>
      stderr w' = stderr w"
proof -
  from assms obtain raw w1 where
    l: "load_json L (path plan) w = (Inr raw, w1)" and
    r: "(case raw of
         JDict d \<Rightarrow>
           then_do (pure_op (relative_to (path plan) wd)) (\<lambda>rel_path.
           let backup_path = joinpath bd rel_path in
           then_do (mkdir_parents (parent backup_path)) (\<lambda>u1.
           then_do (copy2 (path plan) backup_path) (\<lambda>u2.
           let raw1 = dict_set d (lit ''extensionMode'') (JStr (after_mode plan));
               raw2 = dict_set raw1 (lit ''extensions'') (JList (map JStr (after_extensions plan)));
               serialized = json_dumps L (JDict raw2) 2 @ [10]
           in
           then_do (pure_op (tmp_path_of (path plan))) (\<lambda>tmp_path.
           then_do (write_text L tmp_path serialized) (\<lambda>u3.
           replace tmp_path (path plan))))))
       | _ \<Rightarrow> pure_op (Inl (ValueError (lit ''workspace root is not a JSON object'')))) w1 = (Inr u, w')"
    unfolding apply_plan_try_def then_do_Inr by blast
  from l obtain b0 tx where
    f0: "nodes w (path plan) = Some (File b0)" and dec: "utf8_decode L b0 = Inr tx" and
    ld: "json_loads L tx = Inr raw" and w1: "w1 = tick w"
    unfolding load_json_Inr by blast
  from r obtain d where raw: "raw = JDict d"
    by (cases raw) (simp_all add: pure_op_def)
  from r [unfolded raw json.case then_do_Inr pure_op_Inr Let_def]
  obtain rel w2 w3 tmp w4 where
    rel: "relative_to (path plan) wd = Inr rel" and
    mk: "mkdir_parents (parent (joinpath bd rel)) w1 = (Inr (), w2)" and
    cp: "copy2 (path plan) (joinpath bd rel) w2 = (Inr (), w3)" and
    tmp: "tmp_path_of (path plan) = Inr tmp" and
    wr: "write_text L tmp (json_dumps L (JDict (dict_set (dict_set d (lit ''extensionMode'')
          (JStr (after_mode plan))) (lit ''extensions'')
          (JList (map JStr (after_extensions plan))))) 2 @ [10]) w3 = (Inr (), w4)" and
    rp: "replace tmp (path plan) w4 = (Inr u, w')"
    by auto
  let ?bp = "joinpath bd rel"
  let ?n2 = "\<lambda>q. if q \<in> set (ancestors_self (parent ?bp)) then Some Dir else nodes w q"
  let ?target = "if ?n2 ?bp = Some Dir then ?bp @ [path_name (path plan)] else ?bp"
  from mk have n2: "nodes w2 = ?n2" and e2: "stderr w2 = stderr w"
    unfolding mkdir_parents_Inr w1 by (simp_all cong: if_cong)
  from cp obtain b1 where
    s1: "nodes w2 (path plan) = Some (File b1)" and
    t1: "(if nodes w2 ?bp = Some Dir then ?bp @ [path_name (path plan)] else ?bp) \<noteq> path plan" and
    n3: "nodes w3 = (nodes w2)((if nodes w2 ?bp = Some Dir then ?bp @ [path_name (path plan)] else ?bp) \<mapsto> File b1)" and
    e3: "stderr w3 = stderr w2"
    unfolding copy2_Inr by auto
  from s1 f0 have b1: "b1 = b0" and keep: "?n2 (path plan) = Some (File b0)"
    unfolding n2 by (auto split: if_splits)
  from wr obtain b where
    enc: "utf8_encode L (json_dumps L (JDict (dict_set (dict_set d (lit ''extensionMode'')
          (JStr (after_mode plan))) (lit ''extensions'')
          (JList (map JStr (after_extensions plan))))) 2 @ [10]) = Inr b" and
    n4: "nodes w4 = (nodes w3)(tmp \<mapsto> File b)" and e4: "stderr w4 = stderr w3"
    unfolding write_text_Inr by auto
  from rp obtain b2 where
    s2: "nodes w4 tmp = Some (File b2)" and
    n5: "nodes w' = (nodes w4)(tmp := None, path plan \<mapsto> File b2)" and e5: "stderr w' = stderr w4"
    unfolding replace_Inr by auto
  from s2 have b2: "b2 = b" unfolding n4 by simp
  have fin: "nodes w' = (?n2(?target \<mapsto> File b0, tmp \<mapsto> File b))(tmp := None, path plan \<mapsto> File b)"
    unfolding n5 n4 n3 n2 b1 b2 by (rule refl)
  have tne: "?target \<noteq> path plan" using t1 unfolding n2 .
  have err: "stderr w' = stderr w" by (simp add: e5 e4 e3 e2)
  show ?thesis
    apply (rule exI [of _ b0], rule exI [of _ tx], rule exI [of _ d], rule exI [of _ rel],
        rule exI [of _ tmp], rule exI [of _ b])
    unfolding Let_def
    using f0 dec ld [unfolded raw] rel tmp enc tne keep fin err by (intro conjI)
qed

section \<open>The loop of the apply engine\<close>











lemma apply_plan_loop_append:
  "apply_plan_loop L wd bd (ps @ qs) c f w =
     (case apply_plan_loop L wd bd ps c f w of ((c', f'), w') \<Rightarrow> apply_plan_loop L wd bd qs c' f' w')"
  by (induction ps arbitrary: c f w) (auto split: prod.splits sum.splits)

lemma apply_plan_loop_counters:
  "apply_plan_loop L wd bd ps c f w =
     (case apply_plan_loop L wd bd ps 0 0 w of ((c', f'), w') \<Rightarrow> ((c + c', f + f'), w'))"
proof (induction ps arbitrary: c f w)
  case Nil
  show ?case by simp
next
  case (Cons plan plans)
  note ih = Cons.IH
  show ?case
  proof (cases "\<not> changed plan \<or> skipped plan")
    case True
    then show ?thesis using ih [of c f w] by simp
  next
    case False
    obtain r w1 where t: "apply_plan_try L wd bd plan w = (r, w1)" by (cases "apply_plan_try L wd bd plan w")
    show ?thesis
    proof (cases r)
      case (Inl err)
      with False t show ?thesis
        using ih [of c "f + 1" "print_stderr (error_line (path plan) err) w1"]
              ih [of 0 1 "print_stderr (error_line (path plan) err) w1"]
        by (simp split: prod.splits)
    next
      case (Inr u)
      with False t show ?thesis
        using ih [of "c + 1" f w1] ih [of 1 0 w1]
        by (simp split: prod.splits)
    qed
  qed
qed

lemma apply_plan_append:
  "apply_plan L (ps @ qs) wd bd w =
     (case apply_plan L ps wd bd w of ((c1, f1), w1) \<Rightarrow>
        case apply_plan L qs wd bd w1 of ((c2, f2), w2) \<Rightarrow> ((c1 + c2, f1 + f2), w2))"
proof -
  obtain c1 f1 w1 where a: "apply_plan_loop L wd bd ps 0 0 w = ((c1, f1), w1)"
    by (metis prod.exhaust)
  obtain c2 f2 w2 where b: "apply_plan_loop L wd bd qs 0 0 w1 = ((c2, f2), w2)"
    by (metis prod.exhaust)
  have "apply_plan_loop L wd bd qs c1 f1 w1 = ((c1 + c2, f1 + f2), w2)"
    using apply_plan_loop_counters [of L wd bd qs c1 f1 w1] b by simp
  with a b show ?thesis
    by (simp add: apply_plan_def apply_plan_loop_append)
qed

lemma apply_plan_skip:
  "\<not> changed plan \<or> skipped plan \<Longrightarrow> apply_plan L [plan] wd bd w = ((0, 0), w)"
  by (simp add: apply_plan_def)

lemma apply_plan_applied:
  "changed plan \<Longrightarrow> \<not> skipped plan \<Longrightarrow> apply_plan_try L wd bd plan w = (Inr u, w1) \<Longrightarrow>
     apply_plan L [plan] wd bd w = ((1, 0), w1)"
  by (simp add: apply_plan_def)

lemma apply_plan_failed:
  "changed plan \<Longrightarrow> \<not> skipped plan \<Longrightarrow> apply_plan_try L wd bd plan w = (Inl err, w1) \<Longrightarrow>
     apply_plan L [plan] wd bd w = ((0, 1), print_stderr (error_line (path plan) err) w1)"
  by (simp add: apply_plan_def)

lemma apply_plan_drop_skipped:
  assumes "\<not> changed plan \<or> skipped plan"
  shows "apply_plan L (ps @ plan # qs) wd bd w = apply_plan L (ps @ qs) wd bd w"
proof -
  have "apply_plan L (plan # qs) wd bd w1 = apply_plan L qs wd bd w1" for w1
    using assms by (auto simp add: apply_plan_def)
  then show ?thesis
    by (simp add: apply_plan_append [of L ps])
qed

section \<open>Files that do not hold an object\<close>

lemma load_json_read_text:
  "fst (load_json L p w) =
     (case fst (read_text L p w) of Inl err \<Rightarrow> Inl err | Inr tx \<Rightarrow> json_loads L tx)"
  by (simp add: load_json_def then_do_def pure_op_def split: prod.splits sum.splits)

text \<open>
  C4. When the file cannot be read or parsed, or parses to a value that is not an
  object, the plan is skipped and not changed, with the reason \<^verbatim>\<open>parse-error\<close> and
  the text of the exception, or the reason \<^verbatim>\<open>invalid-json-root\<close> and its fixed
  message; the after-state is empty; and \<^verbatim>\<open>apply_plan\<close> passes over the plan: a batch
  with it does what the batch without it does, and the plan alone leaves the world as it
  is, with no write and no backup.
\<close>

theorem build_plan_parse_failure:
  "(\<forall>err. fst (load_json L p w) = Inl err \<longrightarrow>
       reason (build_plan L w p include_todos force) = lit ''parse-error'' \<and>
       error (build_plan L w p include_todos force) = Some (str_exn err))
   \<and> (\<forall>v. fst (load_json L p w) = Inr v \<and> (\<forall>d. v \<noteq> JDict d) \<longrightarrow>
       reason (build_plan L w p include_todos force) = lit ''invalid-json-root'' \<and>
       error (build_plan L w p include_todos force) =
         Some (lit ''workspace file root must be a JSON object''))
   \<and> (\<forall>tx. fst (read_text L p w) = Inr tx \<longrightarrow> fst (load_json L p w) = json_loads L tx)
   \<and> (\<forall>err. fst (read_text L p w) = Inl err \<longrightarrow> fst (load_json L p w) = Inl err)
   \<and> ((\<forall>d. fst (load_json L p w) \<noteq> Inr (JDict d)) \<longrightarrow>
        skipped (build_plan L w p include_todos force) \<and>
        \<not> changed (build_plan L w p include_todos force) \<and>
        before_mode (build_plan L w p include_todos force) = None \<and>
        before_extensions (build_plan L w p include_todos force) = [] \<and>
        after_mode (build_plan L w p include_todos force) = lit ''explicit'' \<and>
        after_extensions (build_plan L w p include_todos force) = [] \<and>
        (\<forall>workspaces_dir backup_dir w'.
           apply_plan L [build_plan L w p include_todos force] workspaces_dir backup_dir w' =
             ((0, 0), w')) \<and>
        (\<forall>ps qs workspaces_dir backup_dir w'.
           apply_plan L (ps @ build_plan L w p include_todos force # qs) workspaces_dir backup_dir w' =
             apply_plan L (ps @ qs) workspaces_dir backup_dir w'))"
proof -
  have a: "\<forall>err. fst (load_json L p w) = Inl err \<longrightarrow>
       reason (build_plan L w p include_todos force) = lit ''parse-error'' \<and>
       error (build_plan L w p include_todos force) = Some (str_exn err)"
    by (simp add: build_plan_load_error)
  have b: "\<forall>v. fst (load_json L p w) = Inr v \<and> (\<forall>d. v \<noteq> JDict d) \<longrightarrow>
       reason (build_plan L w p include_todos force) = lit ''invalid-json-root'' \<and>
       error (build_plan L w p include_todos force) =
         Some (lit ''workspace file root must be a JSON object'')"
    by (simp add: build_plan_not_object)
  have c: "\<forall>tx. fst (read_text L p w) = Inr tx \<longrightarrow> fst (load_json L p w) = json_loads L tx"
    and d: "\<forall>err. fst (read_text L p w) = Inl err \<longrightarrow> fst (load_json L p w) = Inl err"
    by (simp_all add: load_json_read_text)
  have e: "skipped (build_plan L w p include_todos force) \<and>
        \<not> changed (build_plan L w p include_todos force) \<and>
        before_mode (build_plan L w p include_todos force) = None \<and>
        before_extensions (build_plan L w p include_todos force) = [] \<and>
        after_mode (build_plan L w p include_todos force) = lit ''explicit'' \<and>
        after_extensions (build_plan L w p include_todos force) = [] \<and>
        (\<forall>workspaces_dir backup_dir w'.
           apply_plan L [build_plan L w p include_todos force] workspaces_dir backup_dir w' =
             ((0, 0), w')) \<and>
        (\<forall>ps qs workspaces_dir backup_dir w'.
           apply_plan L (ps @ build_plan L w p include_todos force # qs) workspaces_dir backup_dir w' =
             apply_plan L (ps @ qs) workspaces_dir backup_dir w')"
    if n: "\<forall>d. fst (load_json L p w) \<noteq> Inr (JDict d)"
  proof -
    have f: "skipped (build_plan L w p include_todos force) \<and>
        \<not> changed (build_plan L w p include_todos force) \<and>
        before_mode (build_plan L w p include_todos force) = None \<and>
        before_extensions (build_plan L w p include_todos force) = [] \<and>
        after_mode (build_plan L w p include_todos force) = lit ''explicit'' \<and>
        after_extensions (build_plan L w p include_todos force) = []"
    proof (cases "fst (load_json L p w)")
      case (Inl err)
      then show ?thesis by (simp add: build_plan_load_error)
    next
      case (Inr v)
      with n have "\<forall>d. v \<noteq> JDict d" by simp
      with Inr show ?thesis by (simp add: build_plan_not_object)
    qed
    then have s: "\<not> changed (build_plan L w p include_todos force) \<or>
        skipped (build_plan L w p include_todos force)" by simp
    show ?thesis
      using f apply_plan_skip [OF s] apply_plan_drop_skipped [OF s] by blast
  qed
  from a b c d e show ?thesis by blast
qed

theorem build_plan_parse_failure_witness:
  "reason (build_plan example_lib example_world (alice ''d.json'') True False) = lit ''parse-error''
   \<and> error (build_plan example_lib example_world (alice ''d.json'') True False) =
        Some (lit ''Expecting value: line 1 column 1 (char 0)'')
   \<and> reason (build_plan example_lib example_world (alice ''c.json'') True False) =
        lit ''invalid-json-root''
   \<and> skipped (build_plan example_lib example_world (alice ''c.json'') True False)
   \<and> after_extensions (build_plan example_lib example_world (alice ''d.json'') True False) = []
   \<and> apply_plan example_lib
        [build_plan example_lib example_world (alice ''d.json'') True False] wdir bdir example_world
        = ((0, 0), example_world)"
proof -
  note d = build_plan_parse_failure [of example_lib "alice ''d.json''" example_world True False]
  note c = build_plan_parse_failure [of example_lib "alice ''c.json''" example_world True False]
  have nd: "\<forall>x. fst (load_json example_lib (alice ''d.json'') example_world) \<noteq> Inr (JDict x)"
    by (simp add: example_load_d)
  have nc: "\<forall>x. fst (load_json example_lib (alice ''c.json'') example_world) \<noteq> Inr (JDict x)"
    by (simp add: example_load_c)
  have 1: "reason (build_plan example_lib example_world (alice ''d.json'') True False) = lit ''parse-error''
    \<and> error (build_plan example_lib example_world (alice ''d.json'') True False) =
        Some (lit ''Expecting value: line 1 column 1 (char 0)'')"
    using d example_load_d by simp
  have 2: "reason (build_plan example_lib example_world (alice ''c.json'') True False) =
        lit ''invalid-json-root''"
    using c example_load_c by simp
  have 3: "skipped (build_plan example_lib example_world (alice ''c.json'') True False)"
    using c nc by blast
  have 4: "after_extensions (build_plan example_lib example_world (alice ''d.json'') True False) = []"
    using d nd by blast
  have 5: "apply_plan example_lib
        [build_plan example_lib example_world (alice ''d.json'') True False] wdir bdir example_world
        = ((0, 0), example_world)"
    using d nd by blast
  from 1 2 3 4 5 show ?thesis by (intro conjI) simp_all
qed

section \<open>Failures stay with their plan\<close>





section \<open>What an applied plan writes\<close>

lemma map_of_dict_set: "map_of (dict_set d k v) = (map_of d)(k \<mapsto> v)"
  by (induction d k v rule: dict_set.induct) (auto simp: fun_eq_iff)

lemma filter_dict_set:
  "\<not> P (k, v) \<Longrightarrow> (\<And>v'. \<not> P (k, v')) \<Longrightarrow> filter P (dict_set d k v) = filter P d"
  by (induction d k v rule: dict_set.induct) auto

lemma world_after_0: "world_after L plans wd bd w 0 = w"
  by (simp add: world_after_def apply_plan_def)

lemma applied_at_try:
  assumes "applied_at L plans wd bd w i"
  shows "changed (plans ! i) \<and> \<not> skipped (plans ! i) \<and>
         apply_plan_try L wd bd (plans ! i) (world_after L plans wd bd w i) =
           (Inr (), world_after L plans wd bd w (Suc i))"
proof -
  from assms have i: "i < length plans"
    and up: "fst (fst (apply_plan L (take (Suc i) plans) wd bd w)) =
        Suc (fst (fst (apply_plan L (take i plans) wd bd w)))"
    by (simp_all add: applied_at_def)
  let ?plan = "plans ! i"
  obtain c f wi where r: "apply_plan L (take i plans) wd bd w = ((c, f), wi)"
    by (metis prod.exhaust)
  have wi: "world_after L plans wd bd w i = wi" by (simp add: world_after_def r)
  have t: "take (Suc i) plans = take i plans @ [?plan]"
    using i by (rule take_Suc_conv_app_nth)
  have step: "apply_plan L (take (Suc i) plans) wd bd w =
      (case apply_plan L [?plan] wd bd wi of ((c2, f2), w2) \<Rightarrow> ((c + c2, f + f2), w2))"
    unfolding t apply_plan_append by (simp add: r)
  show ?thesis
  proof (cases "\<not> changed ?plan \<or> skipped ?plan")
    case True
    from apply_plan_skip [OF True] step up r show ?thesis by simp
  next
    case False
    obtain res w1 where tr: "apply_plan_try L wd bd ?plan wi = (res, w1)"
      by (metis prod.exhaust)
    show ?thesis
    proof (cases res)
      case (Inl err)
      with False tr have "apply_plan L [?plan] wd bd wi =
          ((0, 1), print_stderr (error_line (path ?plan) err) w1)"
        by (simp add: apply_plan_failed)
      with step up r show ?thesis by simp
    next
      case (Inr u)
      with False tr have "apply_plan L [?plan] wd bd wi = ((1, 0), w1)"
        by (simp add: apply_plan_applied)
      with step have "world_after L plans wd bd w (Suc i) = w1"
        by (simp add: world_after_def)
      with False tr Inr wi show ?thesis by simp
    qed
  qed
qed

lemma char_of_lit [simp]: "map char_of (lit s) = s"
  by (simp add: lit_def comp_def)

lemma char_of_newline: "char_of (10::nat) = CHR 0x0A"
  by code_simp

lemma example_batch_0:
  "path (example_batch ! 0) = alice ''a.json''"
  "after_mode (example_batch ! 0) = lit ''explicit''"
  "after_extensions (example_batch ! 0) = [lit ''memory'', lit ''todos'']"
  by (simp_all add: example_batch_def build_plan_object [OF example_load_a] Let_def dict_get_def)

lemma example_applied_0: "applied_at example_lib example_batch wdir bdir example_world 0"
  by code_simp


text \<open>
  C6. When \<^verbatim>\<open>apply_plan\<close> applies plan \<^verbatim>\<open>i\<close> of a batch, the file held an object
  \<^verbatim>\<open>d\<close> when the plan's turn came, and afterwards it holds the encoded text of
  \<^verbatim>\<open>json.dumps\<close> (with a newline) of \<^verbatim>\<open>d\<close> with two keys set:
  \<^verbatim>\<open>extensionMode\<close> to the plan's \<^verbatim>\<open>after_mode\<close> and \<^verbatim>\<open>extensions\<close> to its
  \<^verbatim>\<open>after_extensions\<close>. Every other key has the value it had, and the other entries
  are the same, in the same order.
\<close>

theorem apply_plan_written_object:
  assumes "applied_at L plans wd bd w i"
  shows "\<exists>b0 tx d b.
      nodes (world_after L plans wd bd w i) (path (plans ! i)) = Some (File b0) \<and>
      utf8_decode L b0 = Inr tx \<and>
      json_loads L tx = Inr (JDict d) \<and>
      (let written =
             dict_set (dict_set d (lit ''extensionMode'') (JStr (after_mode (plans ! i))))
               (lit ''extensions'') (JList (map JStr (after_extensions (plans ! i))))
       in utf8_encode L (json_dumps L (JDict written) 2 @ [10]) = Inr b \<and>
          nodes (world_after L plans wd bd w (Suc i)) (path (plans ! i)) = Some (File b) \<and>
          map_of written (lit ''extensionMode'') = Some (JStr (after_mode (plans ! i))) \<and>
          map_of written (lit ''extensions'') =
            Some (JList (map JStr (after_extensions (plans ! i)))) \<and>
          (\<forall>k. k \<noteq> lit ''extensionMode'' \<and> k \<noteq> lit ''extensions'' \<longrightarrow>
               map_of written k = map_of d k) \<and>
          filter (\<lambda>kv. fst kv \<noteq> lit ''extensionMode'' \<and> fst kv \<noteq> lit ''extensions'') written =
            filter (\<lambda>kv. fst kv \<noteq> lit ''extensionMode'' \<and> fst kv \<noteq> lit ''extensions'') d)"
proof -
  let ?plan = "plans ! i"
  let ?w = "world_after L plans wd bd w i"
  let ?w' = "world_after L plans wd bd w (Suc i)"
  from applied_at_try [OF assms]
  have tr: "apply_plan_try L wd bd ?plan ?w = (Inr (), ?w')" by simp
  from apply_plan_try_Inr [OF tr] obtain b0 tx d rel tmp b where
    f0: "nodes ?w (path ?plan) = Some (File b0)" and dec: "utf8_decode L b0 = Inr tx" and
    ld: "json_loads L tx = Inr (JDict d)" and
    enc: "utf8_encode L (json_dumps L (JDict (dict_set (dict_set d (lit ''extensionMode'')
          (JStr (after_mode ?plan))) (lit ''extensions'')
          (JList (map JStr (after_extensions ?plan))))) 2 @ [10]) = Inr b" and
    fin: "let bp = joinpath bd rel;
           n2 = (\<lambda>q. if q \<in> set (ancestors_self (parent bp)) then Some Dir else nodes ?w q);
           target = (if n2 bp = Some Dir then bp @ [path_name (path ?plan)] else bp)
       in target \<noteq> path ?plan \<and> n2 (path ?plan) = Some (File b0) \<and>
          nodes ?w' = (n2(target \<mapsto> File b0, tmp \<mapsto> File b))(tmp := None, path ?plan \<mapsto> File b)"
    by blast
  from fin have wr: "nodes ?w' (path ?plan) = Some (File b)"
    by (simp add: Let_def)
  let ?written = "dict_set (dict_set d (lit ''extensionMode'') (JStr (after_mode ?plan)))
               (lit ''extensions'') (JList (map JStr (after_extensions ?plan)))"
  have m1: "map_of ?written (lit ''extensionMode'') = Some (JStr (after_mode ?plan))"
    and m2: "map_of ?written (lit ''extensions'') = Some (JList (map JStr (after_extensions ?plan)))"
    and m3: "\<forall>k. k \<noteq> lit ''extensionMode'' \<and> k \<noteq> lit ''extensions'' \<longrightarrow>
               map_of ?written k = map_of d k"
    by (simp_all add: map_of_dict_set)
  have m4: "filter (\<lambda>kv. fst kv \<noteq> lit ''extensionMode'' \<and> fst kv \<noteq> lit ''extensions'') ?written =
            filter (\<lambda>kv. fst kv \<noteq> lit ''extensionMode'' \<and> fst kv \<noteq> lit ''extensions'') d"
    by (simp add: filter_dict_set)
  have "nodes ?w (path ?plan) = Some (File b0) \<and>
      utf8_decode L b0 = Inr tx \<and>
      json_loads L tx = Inr (JDict d) \<and>
      (let written = ?written
       in utf8_encode L (json_dumps L (JDict written) 2 @ [10]) = Inr b \<and>
          nodes ?w' (path ?plan) = Some (File b) \<and>
          map_of written (lit ''extensionMode'') = Some (JStr (after_mode ?plan)) \<and>
          map_of written (lit ''extensions'') =
            Some (JList (map JStr (after_extensions ?plan))) \<and>
          (\<forall>k. k \<noteq> lit ''extensionMode'' \<and> k \<noteq> lit ''extensions'' \<longrightarrow>
               map_of written k = map_of d k) \<and>
          filter (\<lambda>kv. fst kv \<noteq> lit ''extensionMode'' \<and> fst kv \<noteq> lit ''extensions'') written =
            filter (\<lambda>kv. fst kv \<noteq> lit ''extensionMode'' \<and> fst kv \<noteq> lit ''extensions'') d)"
    unfolding Let_def using f0 dec ld enc wr m1 m2 m3 m4 by (intro conjI)
  then show ?thesis
    by (intro exI [of _ b0] exI [of _ tx] exI [of _ d] exI [of _ b])
qed

theorem apply_plan_written_object_witness:
  "applied_at example_lib example_batch wdir bdir example_world 0
   \<and> nodes (world_after example_lib example_batch wdir bdir example_world (Suc 0)) (alice ''a.json'')
       = Some (File (example_migrated @ [CHR 0x0A]))"
proof -
  from apply_plan_written_object [OF example_applied_0]
  obtain b0 tx d b where
    f0: "nodes example_world (alice ''a.json'') = Some (File b0)" and
    dec: "utf8_decode example_lib b0 = Inr tx" and
    ld: "json_loads example_lib tx = Inr (JDict d)" and
    enc: "utf8_encode example_lib (json_dumps example_lib (JDict
           (dict_set (dict_set d (lit ''extensionMode'') (JStr (lit ''explicit'')))
              (lit ''extensions'') (JList (map JStr [lit ''memory'', lit ''todos''])))) 2 @ [10]) = Inr b" and
    wr: "nodes (world_after example_lib example_batch wdir bdir example_world (Suc 0))
           (alice ''a.json'') = Some (File b)"
    unfolding Let_def example_batch_0 world_after_0 by blast
  from f0 have b0: "b0 = example_legacy"
    by (simp add: example_world_def alice_def)
  from dec have tx: "tx = lit example_legacy"
    by (simp add: example_decode b0)
  from ld have d: "d = [(lit ''memoryEnabled'', JBool True)]"
    by (simp add: tx example_lib_def example_loads_def)
  from enc have "b = example_migrated @ [CHR 0x0A]"
    by (auto simp add: d example_lib_def example_dumps_def char_of_newline)
  with wr example_applied_0 show ?thesis by simp
qed

section \<open>The backup copy\<close>

lemma relative_to_Inr: "relative_to p other = Inr rel \<Longrightarrow> rel = drop (length other) p"
  by (auto simp: relative_to_def split: if_splits)

lemma tmp_path_of_Inr:
  "tmp_path_of p = Inr tmp \<Longrightarrow> p \<noteq> [] \<and> tmp = butlast p @ [last p @ lit ''.tmp'']"
  by (auto simp: tmp_path_of_def path_name_def split: if_splits)

lemma path_name_nonempty: "path_name p \<noteq> [] \<Longrightarrow> p \<noteq> [] \<and> last p \<noteq> []"
  by (auto simp: path_name_def split: if_splits)

lemma joinpath_last: "rel \<noteq> [] \<Longrightarrow> last (joinpath bd rel) = last rel"
  by (simp add: joinpath_def)

lemma joinpath_name: "path_name rel \<noteq> [] \<Longrightarrow> path_name (joinpath bd rel) \<noteq> []"
proof -
  assume n: "path_name rel \<noteq> []"
  then have r: "rel \<noteq> []" "last rel \<noteq> []" by (simp_all add: path_name_nonempty)
  show ?thesis
  proof (cases "is_anchor (hd rel)")
    case True
    with r n show ?thesis by (simp add: joinpath_def)
  next
    case False
    show ?thesis
    proof (cases bd)
      case Nil
      with False n show ?thesis by (simp add: joinpath_def)
    next
      case (Cons a as)
      with False r show ?thesis
        by (cases rel) (auto simp: joinpath_def path_name_def)
    qed
  qed
qed

lemma not_own_ancestor:
  assumes "p \<noteq> []"
  shows "p \<notin> set (ancestors_self (butlast p))"
proof
  assume "p \<in> set (ancestors_self (butlast p))"
  then obtain n where "p = take n (butlast p)"
    by (auto simp: ancestors_self_def)
  then have "length p = length (take n (butlast p))"
    by (rule arg_cong)
  also have "\<dots> \<le> length (butlast p)"
    by simp
  finally have "length p \<le> length p - 1" unfolding length_butlast .
  then have "length p = 0" by arith
  then have "p = []" by simp
  with assms show False by simp
qed

text \<open>
  At the turn of a plan the copy is faithful: when \<^verbatim>\<open>apply_plan\<close> applies plan
  \<^verbatim>\<open>i\<close>, the file has a name below \<^verbatim>\<open>workspaces_dir\<close> and its backup path is
  not a directory, then right after that plan the backup path holds the bytes the file
  had right before it.
\<close>

lemma apply_plan_backup_at_turn:
  assumes "applied_at L plans wd bd w i"
    and "path_name (drop (length wd) (path (plans ! i))) \<noteq> []"
    and "nodes (world_after L plans wd bd w i) (backup_path_of wd bd (path (plans ! i))) \<noteq> Some Dir"
  shows "\<exists>b0. nodes (world_after L plans wd bd w i) (path (plans ! i)) = Some (File b0) \<and>
          nodes (world_after L plans wd bd w (Suc i)) (backup_path_of wd bd (path (plans ! i))) =
            Some (File b0)"
proof -
  let ?plan = "plans ! i"
  let ?w = "world_after L plans wd bd w i"
  let ?w' = "world_after L plans wd bd w (Suc i)"
  let ?bp = "backup_path_of wd bd (path ?plan)"
  from applied_at_try [OF assms(1)]
  have tr: "apply_plan_try L wd bd ?plan ?w = (Inr (), ?w')" by simp
  from apply_plan_try_Inr [OF tr] obtain b0 rel tmp b where
    f0: "nodes ?w (path ?plan) = Some (File b0)" and
    rel: "relative_to (path ?plan) wd = Inr rel" and
    tmp: "tmp_path_of (path ?plan) = Inr tmp" and
    fin: "let bp = joinpath bd rel;
           n2 = (\<lambda>q. if q \<in> set (ancestors_self (parent bp)) then Some Dir else nodes ?w q);
           target = (if n2 bp = Some Dir then bp @ [path_name (path ?plan)] else bp)
       in target \<noteq> path ?plan \<and> n2 (path ?plan) = Some (File b0) \<and>
          nodes ?w' = (n2(target \<mapsto> File b0, tmp \<mapsto> File b))(tmp := None, path ?plan \<mapsto> File b)"
    by blast
  have r: "rel = drop (length wd) (path ?plan)" using rel by (rule relative_to_Inr)
  have bp: "joinpath bd rel = ?bp" by (simp add: backup_path_of_def r)
  from assms(2) have rn: "path_name rel \<noteq> []" by (simp add: r)
  then have rne: "rel \<noteq> []" by (simp add: path_name_nonempty)
  have name: "path_name ?bp \<noteq> []" using joinpath_name [OF rn, of bd] unfolding bp .
  then have bne: "?bp \<noteq> []" by (simp add: path_name_nonempty)
  have par: "parent ?bp = butlast ?bp" using name by (simp add: parent_def)
  have nd: "(if ?bp \<in> set (ancestors_self (parent ?bp)) then Some Dir else nodes ?w ?bp) \<noteq> Some Dir"
    using assms(3) not_own_ancestor [OF bne] by (simp add: par)
  from tmp have pne: "path ?plan \<noteq> []" and t: "tmp = butlast (path ?plan) @ [last (path ?plan) @ lit ''.tmp'']"
    by (simp_all add: tmp_path_of_Inr)
  have "last ?bp = last rel" using joinpath_last [OF rne, of bd] unfolding bp .
  also have "\<dots> = last (path ?plan)" using rne by (simp add: r)
  finally have lb: "last ?bp = last (path ?plan)" .
  have "last tmp = last (path ?plan) @ lit ''.tmp''" by (simp add: t)
  with lb have ne_tmp: "?bp \<noteq> tmp" by (auto simp: lit_def)
  from fin nd have ne_path: "?bp \<noteq> path ?plan"
    and n': "nodes ?w' = ((\<lambda>q. if q \<in> set (ancestors_self (parent ?bp)) then Some Dir else nodes ?w q)
              (?bp \<mapsto> File b0, tmp \<mapsto> File b))(tmp := None, path ?plan \<mapsto> File b)"
    unfolding Let_def bp by (simp_all cong: if_cong)
  have "nodes ?w' ?bp = Some (File b0)"
    unfolding n' using ne_tmp ne_path by simp
  with f0 show ?thesis by blast
qed

text \<open>
  C7. The backup of an applied plan should hold the bytes the file had before it was
  overwritten. \<^verbatim>\<open>apply_plan\<close> does not keep it so through a batch that names a file
  twice: both plans are applied, the second copy replaces the first, and when
  \<^verbatim>\<open>apply_plan\<close> returns the backup holds the migrated bytes, as the file does. The
  bytes the file had at first, which the backup held after the first plan, are nowhere.
\<close>

theorem apply_plan_backup_overwritten:
  "fst (apply_plan rerun_lib duplicate_batch wdir bdir example_world) = (2, 0)
   \<and> nodes example_world (alice ''a.json'') = Some (File example_legacy)
   \<and> nodes (world_after rerun_lib duplicate_batch wdir bdir example_world (Suc 0))
         (backup_path_of wdir bdir (alice ''a.json'')) = Some (File example_legacy)
   \<and> nodes (snd (apply_plan rerun_lib duplicate_batch wdir bdir example_world))
         (backup_path_of wdir bdir (alice ''a.json'')) = Some (File (example_migrated @ [CHR 0x0A]))
   \<and> nodes (snd (apply_plan rerun_lib duplicate_batch wdir bdir example_world))
         (alice ''a.json'') = Some (File (example_migrated @ [CHR 0x0A]))"
  by code_simp

end
